theory Spec2Isabelle
  imports Complex_Main "HOL-Library.AList"
begin

section \<open>Python values used by the invoice script\<close>

text \<open>
  The script \<^verbatim>\<open>auto_sbux_v1.0_stable.py\<close> works on Python \<^verbatim>\<open>str\<close> values, on floats and on
  the cells of the tables that the PDF reader returns.

  \<^item> A Python string is modelled as a \<^typ>\<open>string\<close>: one \<^typ>\<open>char\<close> per code point, so the
    model covers the texts whose code points are below 256.
  \<^item> A Python float is modelled by the exact rational it denotes (\<^typ>\<open>rat\<close>): rounding,
    infinities and NaN are outside the model.
\<close>

subsection \<open>Substring test, split and strip\<close>

fun startswith :: "string \<Rightarrow> string \<Rightarrow> bool" where
  "startswith [] s = True"
| "startswith (a # as) [] = False"
| "startswith (a # as) (c # cs) = (a = c \<and> startswith as cs)"

text \<open>\<^verbatim>\<open>needle in text\<close>\<close>

fun isin :: "string \<Rightarrow> string \<Rightarrow> bool" where
  "isin needle [] = (needle = [])"
| "isin needle (c # cs) = (startswith needle (c # cs) \<or> isin needle cs)"

text \<open>\<^verbatim>\<open>text.split('\n')\<close>: the result always has at least one line.\<close>

fun split_nl :: "string \<Rightarrow> string list" where
  "split_nl [] = [[]]"
| "split_nl (c # cs) =
     (if c = CHR 0x0A then [] # split_nl cs
      else (case split_nl cs of
              [] \<Rightarrow> [[c]]
            | l # ls \<Rightarrow> (c # l) # ls))"

text \<open>\<^verbatim>\<open>s.lstrip('0')\<close>\<close>

definition lstrip0 :: "string \<Rightarrow> string" where
  "lstrip0 s = dropWhile (\<lambda>c. c = CHR ''0'') s"

subsection \<open>Digits and floats\<close>

text \<open>The regular-expression class \<^verbatim>\<open>\d\<close>: below code point 256 these are the ASCII digits.\<close>

definition is_digit :: "char \<Rightarrow> bool" where
  "is_digit c = (c \<in> set ''0123456789'')"

text \<open>
  \<^verbatim>\<open>str.isdigit\<close> is wider than \<^verbatim>\<open>\d\<close>: it also accepts the superscript digits
  U+00B2, U+00B3 and U+00B9, which \<^verbatim>\<open>float\<close> then rejects.
\<close>

definition isdigit_char :: "char \<Rightarrow> bool" where
  "isdigit_char c = (is_digit c \<or> c = CHR 0xB2 \<or> c = CHR 0xB3 \<or> c = CHR 0xB9)"

definition isdigit :: "string \<Rightarrow> bool" where
  "isdigit s = (s \<noteq> [] \<and> list_all isdigit_char s)"

text \<open>\<^verbatim>\<open>s.replace('.', '', 1)\<close>: the first dot is removed.\<close>

fun replace_dot_once :: "string \<Rightarrow> string" where
  "replace_dot_once [] = []"
| "replace_dot_once (c # cs) = (if c = CHR ''.'' then cs else c # replace_dot_once cs)"

definition digit_val :: "char \<Rightarrow> nat" where
  "digit_val c = of_char c - 48"

definition digits_val :: "string \<Rightarrow> nat" where
  "digits_val ds = foldl (\<lambda>n c. 10 * n + digit_val c) 0 ds"

text \<open>
  \<^verbatim>\<open>float(s)\<close> on the strings the script passes to it, which consist of digit characters and
  dots only: the result is \<open>None\<close> where Python raises \<^verbatim>\<open>ValueError\<close> (no digit, two dots,
  or a superscript digit), and the decimal value otherwise.
\<close>

definition float_str :: "string \<Rightarrow> rat option" where
  "float_str s =
     (if list_all (\<lambda>c. is_digit c \<or> c = CHR ''.'') s
         \<and> list_ex is_digit s
         \<and> length (filter (\<lambda>c. c = CHR ''.'') s) \<le> 1
      then Some (of_nat (digits_val (filter is_digit s))
                 / 10 ^ length (filter is_digit (dropWhile (\<lambda>c. c \<noteq> CHR ''.'') s)))
      else None)"

subsection \<open>The pattern \<^verbatim>\<open>\d+\.\d{2}\<close>\<close>

text \<open>
  One attempt of the pattern at the start of a string: the digits are taken greedily, and
  giving some back cannot help, since a dot must follow them. The result is the matched
  text and the rest of the string.
\<close>

definition match_amount :: "string \<Rightarrow> (string \<times> string) option" where
  "match_amount s =
     (let ds = takeWhile is_digit s in
      if ds = [] then None
      else (case dropWhile is_digit s of
              d # a # b # rest \<Rightarrow>
                if d = CHR ''.'' \<and> is_digit a \<and> is_digit b
                then Some (ds @ [d, a, b], rest) else None
            | _ \<Rightarrow> None))"

text \<open>\<^verbatim>\<open>re.findall(r'\d+\.\d{2}', s)\<close>: the matches from left to right, without overlap.\<close>

function findall_amounts :: "string \<Rightarrow> string list" where
  "findall_amounts [] = []"
| "findall_amounts (c # cs) =
     (case match_amount (c # cs) of
        Some (m, rest) \<Rightarrow> m # findall_amounts rest
      | None \<Rightarrow> findall_amounts cs)"
  by pat_completeness auto
termination
proof (relation "measure length")
  show "wf (measure length)" by simp
next
  fix c :: char and cs x2 m rest
  assume h: "match_amount (c # cs) = Some x2" "(m, rest) = x2"
  have len: "length (dropWhile is_digit (c # cs)) \<le> length (c # cs)"
    by (rule length_dropWhile_le)
  from h obtain d a b where "dropWhile is_digit (c # cs) = d # a # b # rest"
    by (auto simp: match_amount_def Let_def split: if_splits list.splits)
  with len show "(rest, c # cs) \<in> measure length" by simp
next
  fix c :: char and cs
  show "(cs, c # cs) \<in> measure length" by simp
qed

text \<open>
  \<^verbatim>\<open>nums = re.findall(...); if nums: x = float(nums[-1])\<close>: the value of the last match, if
  there is one.
\<close>

definition last_amount :: "string \<Rightarrow> rat option" where
  "last_amount s =
     (case findall_amounts s of
        [] \<Rightarrow> None
      | n # ns \<Rightarrow> float_str (last (n # ns)))"

subsection \<open>Table cells and the text of a row\<close>

text \<open>
  A cell of a table is absent (\<^verbatim>\<open>None\<close>), an integer, a float or a string. A float cell is
  kept by the decimal that Python prints for it: \<open>CFloat m k\<close> is \<open>m / 10 ^ k\<close>.
\<close>

datatype cell = CNone | CInt int | CFloat int nat | CStr string

text \<open>The truth value of a cell, as in \<^verbatim>\<open>if row[1]\<close>.\<close>

fun truthy :: "cell \<Rightarrow> bool" where
  "truthy CNone = False"
| "truthy (CInt i) = (i \<noteq> 0)"
| "truthy (CFloat m k) = (m \<noteq> 0)"
| "truthy (CStr s) = (s \<noteq> [])"

fun is_str :: "cell \<Rightarrow> bool" where
  "is_str (CStr s) = True"
| "is_str c = False"

definition hex_digit :: "nat \<Rightarrow> char" where
  "hex_digit n = ''0123456789abcdef'' ! n"

function str_nat :: "nat \<Rightarrow> string" where
  "str_nat n = (if n < 10 then [hex_digit n] else str_nat (n div 10) @ [hex_digit (n mod 10)])"
  by pat_completeness auto
termination
  by (relation "measure id") auto

declare str_nat.simps [simp del]

definition str_int :: "int \<Rightarrow> string" where
  "str_int i = (if i < 0 then CHR ''-'' # str_nat (nat (- i)) else str_nat (nat i))"

text \<open>
  \<^verbatim>\<open>repr\<close> of a float in positional notation: the integer part, a dot and the decimals
  without trailing zeros, at least one of them (\<^verbatim>\<open>16.0\<close>, \<^verbatim>\<open>62.56\<close>). Python switches to
  exponent notation below \<^verbatim>\<open>1e-4\<close> and from \<^verbatim>\<open>1e16\<close> on, which is not modelled.
\<close>

definition repr_float :: "int \<Rightarrow> nat \<Rightarrow> string" where
  "repr_float m k =
     (let a = nat \<bar>m\<bar>;
          fp = str_nat (a mod 10 ^ k);
          padded = replicate (k - length fp) (CHR ''0'') @ fp;
          decimals = rev (dropWhile (\<lambda>c. c = CHR ''0'') (rev padded))
      in (if m < 0 then ''-'' else [])
         @ str_nat (a div 10 ^ k) @ ''.'' @ (if decimals = [] then ''0'' else decimals))"

text \<open>
  \<^verbatim>\<open>repr\<close> of a string: single quotes unless the string has a single quote and no double
  quote; the quote and the backslash are escaped, tab, newline and carriage return are
  written \<^verbatim>\<open>\t\<close>, \<^verbatim>\<open>\n\<close>, \<^verbatim>\<open>\r\<close>, and every other character that is not printable is
  written \<^verbatim>\<open>\xhh\<close>.
\<close>

definition printable :: "char \<Rightarrow> bool" where
  "printable c =
     (let n = (of_char c :: nat)
      in (32 \<le> n \<and> n < 127) \<or> (161 \<le> n \<and> n \<noteq> 173))"

definition repr_char :: "char \<Rightarrow> char \<Rightarrow> string" where
  "repr_char quote c =
     (if c = quote \<or> c = CHR 0x5C then [CHR 0x5C, c]
      else if c = CHR 0x09 then [CHR 0x5C, CHR ''t'']
      else if c = CHR 0x0A then [CHR 0x5C, CHR ''n'']
      else if c = CHR 0x0D then [CHR 0x5C, CHR ''r'']
      else if \<not> printable c
        then [CHR 0x5C, CHR ''x'', hex_digit (of_char c div 16), hex_digit (of_char c mod 16)]
      else [c])"

definition repr_str :: "string \<Rightarrow> string" where
  "repr_str s =
     (let quote = (if CHR 0x27 \<in> set s \<and> CHR 0x22 \<notin> set s then CHR 0x22 else CHR 0x27)
      in quote # concat (map (repr_char quote) s) @ [quote])"

fun repr_cell :: "cell \<Rightarrow> string" where
  "repr_cell CNone = ''None''"
| "repr_cell (CInt i) = str_int i"
| "repr_cell (CFloat m k) = repr_float m k"
| "repr_cell (CStr s) = repr_str s"

fun join_comma :: "string list \<Rightarrow> string" where
  "join_comma [] = []"
| "join_comma [x] = x"
| "join_comma (x # y # ys) = x @ '', '' @ join_comma (y # ys)"

text \<open>\<^verbatim>\<open>str(row)\<close>\<close>

definition str_row :: "cell list \<Rightarrow> string" where
  "str_row row = ''['' @ join_comma (map repr_cell row) @ '']''"

text \<open>
  The test on a quantity or amount cell:
  \<^verbatim>\<open>c and (isinstance(c, (int, float)) or (isinstance(c, str) and c.replace('.', '', 1).isdigit()))\<close>
\<close>

fun numeric_cell :: "cell \<Rightarrow> bool" where
  "numeric_cell CNone = False"
| "numeric_cell (CInt i) = (i \<noteq> 0)"
| "numeric_cell (CFloat m k) = (m \<noteq> 0)"
| "numeric_cell (CStr s) = (s \<noteq> [] \<and> isdigit (replace_dot_once s))"

text \<open>\<^verbatim>\<open>float(c)\<close>; \<open>None\<close> where Python raises.\<close>

fun float_cell :: "cell \<Rightarrow> rat option" where
  "float_cell CNone = None"
| "float_cell (CInt i) = Some (of_int i)"
| "float_cell (CFloat m k) = Some (of_int m / 10 ^ k)"
| "float_cell (CStr s) = float_str s"

text \<open>
  For the statements about the rows: a cell that holds a number is an integer, a float, or
  a string of decimal digits with at most one decimal point, which \<^verbatim>\<open>float\<close> reads.
\<close>

fun is_numeric :: "cell \<Rightarrow> bool" where
  "is_numeric CNone = False"
| "is_numeric (CInt i) = True"
| "is_numeric (CFloat m k) = True"
| "is_numeric (CStr s) = (float_str s \<noteq> None)"

text \<open>
  \<^verbatim>\<open>re.match(r'^\d{9}$', s)\<close>: nine digits, and \<^verbatim>\<open>$\<close> also matches before a newline that
  ends the string.
\<close>

definition match_code :: "string \<Rightarrow> bool" where
  "match_code s =
     (list_all is_digit (take 9 s)
      \<and> (length s = 9 \<or> (length s = 10 \<and> s ! 9 = CHR 0x0A)))"

subsection \<open>The line pattern of the text pass\<close>

text \<open>
  \<^verbatim>\<open>(\d{9})[^\d]+([\d.]+)[^\d]+([\d.]+)$\<close> on one line of the text (a line has no newline, so
  \<^verbatim>\<open>$\<close> is the end of the line). A dot is in both classes, so the greedy quantifiers are
  modelled with their backtracking: each takes the longest run first and gives back one
  character at a time until the rest of the pattern matches.
\<close>

fun first_down :: "(nat \<Rightarrow> 'a option) \<Rightarrow> nat \<Rightarrow> 'a option" where
  "first_down f 0 = None"
| "first_down f (Suc k) = (case f (Suc k) of Some r \<Rightarrow> Some r | None \<Rightarrow> first_down f k)"

definition run :: "(char \<Rightarrow> bool) \<Rightarrow> string \<Rightarrow> nat" where
  "run P s = length (takeWhile P s)"

definition digit_or_dot :: "char \<Rightarrow> bool" where
  "digit_or_dot c = (is_digit c \<or> c = CHR ''.'')"

definition non_digit :: "char \<Rightarrow> bool" where
  "non_digit c = (\<not> is_digit c)"

text \<open>\<^verbatim>\<open>([\d.]+)$\<close>\<close>

definition match_price :: "string \<Rightarrow> string option" where
  "match_price s = (if s \<noteq> [] \<and> list_all digit_or_dot s then Some s else None)"

text \<open>\<^verbatim>\<open>[^\d]+([\d.]+)$\<close>\<close>

definition match_sep_price :: "string \<Rightarrow> string option" where
  "match_sep_price s = first_down (\<lambda>k. match_price (drop k s)) (run non_digit s)"

text \<open>\<^verbatim>\<open>([\d.]+)[^\d]+([\d.]+)$\<close>\<close>

definition match_qty_price :: "string \<Rightarrow> (string \<times> string) option" where
  "match_qty_price s =
     first_down (\<lambda>j. case match_sep_price (drop j s) of
                        Some p \<Rightarrow> Some (take j s, p)
                      | None \<Rightarrow> None)
                (run digit_or_dot s)"

text \<open>\<^verbatim>\<open>[^\d]+([\d.]+)[^\d]+([\d.]+)$\<close>\<close>

definition match_sep_qty_price :: "string \<Rightarrow> (string \<times> string) option" where
  "match_sep_qty_price s = first_down (\<lambda>i. match_qty_price (drop i s)) (run non_digit s)"

definition match_item :: "string \<Rightarrow> (string \<times> string \<times> string) option" where
  "match_item s =
     (if 9 \<le> length s \<and> list_all is_digit (take 9 s)
      then (case match_sep_qty_price (drop 9 s) of
              Some (q, p) \<Rightarrow> Some (take 9 s, q, p)
            | None \<Rightarrow> None)
      else None)"

text \<open>
  \<^verbatim>\<open>re.findall\<close> of the pattern on a line: the leftmost match. It ends at the end of the
  line, so there is no second one.
\<close>

fun findall_item :: "string \<Rightarrow> (string \<times> string \<times> string) list" where
  "findall_item [] = []"
| "findall_item (c # cs) =
     (case match_item (c # cs) of
        Some m \<Rightarrow> [m]
      | None \<Rightarrow> findall_item cs)"

section \<open>Line items and the reference table\<close>

text \<open>
  An item is a Python dict with the keys \<^verbatim>\<open>Item Code\<close>, \<^verbatim>\<open>Quantity\<close> and
  \<^verbatim>\<open>Line Total\<close>; reconciliation adds \<^verbatim>\<open>GL Code\<close> and \<^verbatim>\<open>GL Description\<close>, which are
  \<open>None\<close> while the key is not set.
\<close>

record item =
  Item_Code :: string
  Quantity :: rat
  Line_Total :: rat
  GL_Code :: "string option"
  GL_Description :: "string option"

definition mk_item :: "string \<Rightarrow> rat \<Rightarrow> rat \<Rightarrow> item" where
  "mk_item code qty amt =
     \<lparr>Item_Code = code, Quantity = qty, Line_Total = amt,
      GL_Code = None, GL_Description = None\<rparr>"

text \<open>
  A row of the reference table (the data frame read from the spreadsheet), with its three
  columns as strings.
\<close>

record db_row =
  Item_Code_col :: string
  GL_Code_col :: string
  GL_Description_col :: string

section \<open>\<^verbatim>\<open>extract_items_from_starbucks_invoice\<close>\<close>

definition sample_items :: "item list" where
  "sample_items =
     [mk_item ''011120225'' 16 62.56,
      mk_item ''011107006'' 48 192.48,
      mk_item ''011039690'' 6 40.20,
      mk_item ''011119849'' 480 1286.40,
      mk_item ''011087054'' 24 99.60,
      mk_item ''011104438'' 12 83.76,
      mk_item ''011048109'' 60 657.00,
      mk_item ''011051145'' 6 71.40,
      mk_item ''011092210'' 30 180.00,
      mk_item ''011147043'' 12 132.60,
      mk_item ''011147042'' 24 321.60,
      mk_item ''011112621'' 100 91.00,
      mk_item ''011124712'' 324 942.84,
      mk_item ''011096120'' 330 623.70,
      mk_item ''011104506'' 315 752.85,
      mk_item ''011127439'' 63 238.77,
      mk_item ''011141348'' 60 254.40,
      mk_item ''011070181'' 84 386.40,
      mk_item ''011084236'' 192 230.40,
      mk_item ''011084235'' 270 310.50,
      mk_item ''011053916'' 72 108.72,
      mk_item ''011053919'' 80 30.40,
      mk_item ''011158844'' 120 96.00,
      mk_item ''011077811'' 270 294.30,
      mk_item ''011091451'' 126 205.38,
      mk_item ''011114037'' 320 518.40,
      mk_item ''011112622'' 25 16.75,
      mk_item ''011096116'' 288 688.32,
      mk_item ''011096117'' 96 190.08,
      mk_item ''011106074'' 120 370.80,
      mk_item ''011054031'' 420 1306.20,
      mk_item ''011105398'' 135 359.10,
      mk_item ''011086415'' 84 232.68,
      mk_item ''011083338'' 90 405.90,
      mk_item ''011054038'' 54 188.46,
      mk_item ''011147653'' 54 142.56,
      mk_item ''011124142'' 48 143.04,
      mk_item ''011073715'' 150 82.50,
      mk_item ''011089681'' 24 18.48,
      mk_item ''011128917'' 150 177.00,
      mk_item ''011130862'' 80 68.00,
      mk_item ''011161954'' 240 436.80,
      mk_item ''011049066'' 144 128.16,
      mk_item ''011146832'' 114 145.92,
      mk_item ''011166786'' 480 115.20,
      mk_item ''011163613'' 54 156.60,
      mk_item ''011169125'' 126 356.58,
      mk_item ''011119372'' 12 27.00,
      mk_item ''011076078'' 96 154.56,
      mk_item ''011074672'' 108 153.36,
      mk_item ''011094362'' 24 39.36,
      mk_item ''011046399'' 72 138.96,
      mk_item ''011140121'' 24 25.68,
      mk_item ''011140122'' 24 25.68,
      mk_item ''011162946'' 72 125.28,
      mk_item ''011162943'' 72 125.28,
      mk_item ''011016558'' 400 80.00,
      mk_item ''011039722'' 1 21.61,
      mk_item ''011130854'' 200 28.00,
      mk_item ''011127596'' 42 117.60,
      mk_item ''011127598'' 36 100.80,
      mk_item ''011146627'' 12 31.80,
      mk_item ''000173080'' 1 332.28]"

text \<open>The items of one line of the text pass; a failing \<^verbatim>\<open>float\<close> skips the match.\<close>

definition line_items :: "string \<Rightarrow> item list" where
  "line_items line =
     concat (map (\<lambda>(item_code, q, p).
                    case float_str q of
                      None \<Rightarrow> []
                    | Some qty \<Rightarrow>
                        (case float_str p of
                           None \<Rightarrow> []
                         | Some price \<Rightarrow> [mk_item item_code qty price]))
                 (findall_item line))"

definition extract_items_from_starbucks_invoice :: "string \<Rightarrow> item list" where
  "extract_items_from_starbucks_invoice text =
     (let items = filter (\<lambda>item. isin (Item_Code item) text) sample_items
      in if items \<noteq> [] then items
         else concat (map line_items (split_nl text)))"

section \<open>\<^verbatim>\<open>process_starbucks_invoice\<close>\<close>

subsection \<open>The table pass\<close>

text \<open>
  The local variables that the loop over the tables updates. The variable \<^verbatim>\<open>total\<close> is
  the field \<open>total_cad\<close>.
\<close>

record table_state =
  items :: "item list"
  subtotal :: rat
  tax :: rat
  total_cad :: rat
  shipping_amount :: rat
  tables_processed :: bool

definition init_state :: table_state where
  "init_state =
     \<lparr>items = [], subtotal = 0, tax = 0, total_cad = 0, shipping_amount = 0,
      tables_processed = False\<rparr>"

text \<open>\<^verbatim>\<open>isinstance(row[0], str) and row[0] and "#" in row[0]\<close>\<close>

definition is_header :: "cell list \<Rightarrow> bool" where
  "is_header row =
     (case row ! 0 of
        CStr s \<Rightarrow> s \<noteq> [] \<and> isin ''#'' s
      | _ \<Rightarrow> False)"

text \<open>The \<^verbatim>\<open>if\<close>/\<^verbatim>\<open>elif\<close> chain on the labels of the totals.\<close>

definition row_totals :: "string \<Rightarrow> table_state \<Rightarrow> table_state" where
  "row_totals row_str st =
     (if isin ''SUB TOTAL'' row_str then
        (case last_amount row_str of Some v \<Rightarrow> st\<lparr>subtotal := v\<rparr> | None \<Rightarrow> st)
      else if isin ''TAX'' row_str \<and> \<not> isin ''SUMMARY'' row_str then
        (case last_amount row_str of Some v \<Rightarrow> st\<lparr>tax := v\<rparr> | None \<Rightarrow> st)
      else if isin ''TOTAL (CAD)'' row_str then
        (case last_amount row_str of Some v \<Rightarrow> st\<lparr>total_cad := v\<rparr> | None \<Rightarrow> st)
      else st)"

text \<open>
  The \<^verbatim>\<open>try\<close> block: a nine-digit code in column 1, a quantity in column 7 and an amount
  in column 9, both positive. Every \<^verbatim>\<open>continue\<close>, and the \<^verbatim>\<open>except: pass\<close> that
  catches a failing \<^verbatim>\<open>float\<close>, leaves the state as it is.
\<close>

definition parse_line_item :: "cell list \<Rightarrow> table_state \<Rightarrow> table_state" where
  "parse_line_item row st =
     (case row ! 1 of
        CStr item_code \<Rightarrow>
          if \<not> match_code item_code then st
          else if \<not> numeric_cell (row ! 7) then st
          else (case float_cell (row ! 7) of
                  None \<Rightarrow> st
                | Some qty \<Rightarrow>
                    if \<not> numeric_cell (row ! 9) then st
                    else (case float_cell (row ! 9) of
                            None \<Rightarrow> st
                          | Some amt \<Rightarrow>
                              if qty > 0 \<and> amt > 0
                              then st\<lparr>items := items st @ [mk_item item_code qty amt],
                                      tables_processed := True\<rparr>
                              else st))
      | _ \<Rightarrow> st)"

text \<open>The body of the loop over the rows of a table.\<close>

definition process_row :: "cell list \<Rightarrow> table_state \<Rightarrow> table_state" where
  "process_row row st =
     (if row = [] \<or> length row < 10 then st
      else if is_header row then st
      else
        let row_str = str_row row;
            st1 = row_totals row_str st
        in if length row < 10 \<or> \<not> truthy (row ! 1) \<or> \<not> is_str (row ! 1) then st1
           else if isin ''SHIPPING'' row_str \<or> isin ''HDLG'' row_str then
             (case last_amount row_str of
                Some v \<Rightarrow> st1\<lparr>shipping_amount := v\<rparr>
              | None \<Rightarrow> st1)
           else parse_line_item row st1)"

definition table_pass :: "cell list list list \<Rightarrow> table_state" where
  "table_pass tables = fold (\<lambda>table st. fold process_row table st) tables init_state"

subsection \<open>Totals from the text\<close>

definition text_totals_line :: "string \<Rightarrow> table_state \<Rightarrow> table_state" where
  "text_totals_line line st =
     (if isin ''SUB TOTAL'' line then
        (case last_amount line of Some v \<Rightarrow> st\<lparr>subtotal := v\<rparr> | None \<Rightarrow> st)
      else if isin ''TAX'' line \<and> \<not> isin ''TAX SUMMARY'' line then
        (case last_amount line of Some v \<Rightarrow> st\<lparr>tax := v\<rparr> | None \<Rightarrow> st)
      else if isin ''TOTAL (CAD)'' line then
        (case last_amount line of Some v \<Rightarrow> st\<lparr>total_cad := v\<rparr> | None \<Rightarrow> st)
      else st)"

definition text_totals :: "string \<Rightarrow> table_state \<Rightarrow> table_state" where
  "text_totals text st =
     (if subtotal st = 0 \<or> tax st = 0 \<or> total_cad st = 0
      then fold text_totals_line (split_nl text) st
      else st)"

definition text_shipping_line :: "string \<Rightarrow> table_state \<Rightarrow> table_state" where
  "text_shipping_line line st =
     (if isin ''SHIPPING'' line \<or> isin ''HDLG'' line then
        (case last_amount line of Some v \<Rightarrow> st\<lparr>shipping_amount := v\<rparr> | None \<Rightarrow> st)
      else st)"

definition text_shipping :: "string \<Rightarrow> table_state \<Rightarrow> table_state" where
  "text_shipping text st =
     (if shipping_amount st = 0
      then fold text_shipping_line (split_nl text) st
      else st)"

subsection \<open>Matching the items with the reference table\<close>

text \<open>
  \<^verbatim>\<open>database[database["Item Code"] == item_code]\<close> keeps the rows with that code, in the
  order of the table, and \<^verbatim>\<open>match.iloc[0]\<close> is the first of them.
\<close>

definition match_gl :: "db_row list \<Rightarrow> item \<Rightarrow> item" where
  "match_gl database item =
     (let item_code = Item_Code item in
      case filter (\<lambda>r. Item_Code_col r = item_code) database of
        r # rs \<Rightarrow> item\<lparr>GL_Code := Some (GL_Code_col r),
                         GL_Description := Some (GL_Description_col r)\<rparr>
      | [] \<Rightarrow>
          (let item_code_no_zeros = lstrip0 item_code in
           case filter (\<lambda>r. lstrip0 (Item_Code_col r) = item_code_no_zeros) database of
             r # rs \<Rightarrow> item\<lparr>GL_Code := Some (GL_Code_col r),
                              GL_Description := Some (GL_Description_col r)\<rparr>
           | [] \<Rightarrow> item\<lparr>GL_Code := Some ''ASK BOSS'',
                           GL_Description := Some ''ASK BOSS FOR PROPER GL''\<rparr>))"

subsection \<open>The whole function\<close>

text \<open>The items before they are matched: those of the tables, or else those of the text.\<close>

definition extracted_items :: "string \<Rightarrow> cell list list list \<Rightarrow> item list" where
  "extracted_items text tables =
     (let st = table_pass tables
      in if \<not> tables_processed st \<or> items st = []
         then extract_items_from_starbucks_invoice text
         else items st)"

text \<open>The result is \<^verbatim>\<open>(items, shipping_amount, subtotal, tax, total)\<close>.\<close>

definition process_starbucks_invoice ::
  "string \<Rightarrow> cell list list list \<Rightarrow> db_row list \<Rightarrow> item list \<times> rat \<times> rat \<times> rat \<times> rat" where
  "process_starbucks_invoice text tables database =
     (let st = text_shipping text (text_totals text (table_pass tables));
          items' = map (match_gl database) (extracted_items text tables)
      in (items', shipping_amount st, subtotal st, tax st, total_cad st))"

section \<open>\<^verbatim>\<open>generate_summary\<close>\<close>

text \<open>
  The summary is a Python dict from description to amount, kept here as an association
  list in insertion order: \<open>AList.update\<close> replaces the value of a key that is present
  and appends a new key at the end.
\<close>

text \<open>\<^verbatim>\<open>item.get("GL Description", "ASK BOSS FOR PROPER GL")\<close>\<close>

definition get_GL_Description :: "item \<Rightarrow> string" where
  "get_GL_Description item =
     (case GL_Description item of
        Some d \<Rightarrow> d
      | None \<Rightarrow> ''ASK BOSS FOR PROPER GL'')"

text \<open>The body of the loop over the items.\<close>

definition add_to_summary :: "item \<Rightarrow> (string \<times> rat) list \<Rightarrow> (string \<times> rat) list" where
  "add_to_summary item summary =
     (if Item_Code item = ''000173080'' then summary
      else
        let gl_desc = get_GL_Description item;
            amount = Line_Total item
        in (case map_of summary gl_desc of
              Some old \<Rightarrow> AList.update gl_desc (old + amount) summary
            | None \<Rightarrow> AList.update gl_desc amount summary))"

definition generate_summary :: "item list \<Rightarrow> (string \<times> rat) list" where
  "generate_summary its =
     (if its = [] then []
      else fold add_to_summary its [])"

text \<open>
  For the statements about the summary: the items that count for the description \<open>d\<close>,
  which are those with that description other than the shipping item.
\<close>

definition bucket :: "string \<Rightarrow> item list \<Rightarrow> item list" where
  "bucket d its =
     filter (\<lambda>x. Item_Code x \<noteq> ''000173080'' \<and> get_GL_Description x = d) its"

section \<open>\<^verbatim>\<open>main\<close>\<close>

text \<open>
  What a run prints, after the database and the PDF have been read: either the error
  about the missing items, or the items, the summary by description, the shipping
  amount, the calculated subtotal, the tax and the calculated total.
\<close>

record report =
  report_items :: "item list"
  report_summary :: "(string \<times> rat) list"
  report_shipping :: rat
  report_subtotal :: rat
  report_tax :: rat
  report_total :: rat

datatype outcome = No_Items_Extracted | Done report

definition main :: "string \<Rightarrow> cell list list list \<Rightarrow> db_row list \<Rightarrow> outcome" where
  "main text tables db =
     (case process_starbucks_invoice text tables db of
        (its, shipping, subtotal_from_pdf, tax', total_from_pdf) \<Rightarrow>
          if its = [] then No_Items_Extracted
          else
            let summary = generate_summary its;
                calculated_subtotal = fold (\<lambda>(desc, amount) acc. acc + amount) summary 0;
                calculated_total = calculated_subtotal + shipping + tax'
            in Done \<lparr>report_items = its, report_summary = summary,
                     report_shipping = shipping, report_subtotal = calculated_subtotal,
                     report_tax = tax', report_total = calculated_total\<rparr>)"

section \<open>Example inputs\<close>

text \<open>
  Rows of ten cells, as the PDF reader returns them for the invoice layout: the item code
  is in column 1, the quantity in column 7 and the amount in column 9.
\<close>

definition item_row :: "cell list" where
  "item_row =
     [CStr ''1'', CStr ''011120225'', CStr ''COFFEE'', CNone, CNone, CNone, CNone,
      CStr ''16'', CStr ''3.91'', CStr ''62.56'']"

definition header_row :: "cell list" where
  "header_row =
     [CStr ''Line #'', CStr ''Item'', CStr ''SUB TOTAL'', CNone, CNone, CNone, CNone,
      CStr ''Qty'', CStr ''Price'', CStr ''62.56'']"

definition subtotal_row :: "cell list" where
  "subtotal_row =
     [CNone, CNone, CStr ''SUB TOTAL'', CNone, CNone, CNone, CNone, CNone, CNone,
      CStr ''62.56'']"

text \<open>An item row whose description holds the label of the subtotal.\<close>

definition labelled_item_row :: "cell list" where
  "labelled_item_row =
     [CStr ''1'', CStr ''011120225'', CStr ''SUB TOTAL'', CNone, CNone, CNone, CNone,
      CStr ''16'', CStr ''3.91'', CStr ''62.56'']"

text \<open>A shipping row without a code in column 1.\<close>

definition shipping_row_no_code :: "cell list" where
  "shipping_row_no_code =
     [CNone, CNone, CStr ''SHIPPING, HDLG'', CNone, CNone, CNone, CNone, CNone, CNone,
      CStr ''332.28'']"

text \<open>A shipping row with a code, whole numbers and no decimal number.\<close>

definition shipping_row_no_amount :: "cell list" where
  "shipping_row_no_amount =
     [CStr ''2'', CStr ''000173080'', CStr ''SHIPPING'', CNone, CNone, CNone, CNone,
      CStr ''1'', CStr ''5'', CStr ''5'']"

text \<open>A shipping row as the invoice prints it, with the shipping code in column 1.\<close>

definition shipping_row :: "cell list" where
  "shipping_row =
     [CStr ''2'', CStr ''000173080'', CStr ''SHIPPING, HDLG'', CNone, CNone, CNone, CNone,
      CStr ''1'', CStr ''332.28'', CStr ''332.28'']"

text \<open>A tax row of the tax summary.\<close>

definition tax_summary_row :: "cell list" where
  "tax_summary_row =
     [CNone, CStr ''TAX SUMMARY'', CStr ''GST'', CNone, CNone, CNone, CNone, CNone, CNone,
      CStr ''12.34'']"

text \<open>A subtotal row of a table with fewer than ten columns.\<close>

definition short_subtotal_row :: "cell list" where
  "short_subtotal_row = [CStr ''SUB TOTAL'', CStr ''62.56'']"

text \<open>The rows of the tax and of the total.\<close>

definition tax_row :: "cell list" where
  "tax_row =
     [CNone, CNone, CStr ''TAX'', CNone, CNone, CNone, CNone, CNone, CNone, CStr ''3.13'']"

definition total_row :: "cell list" where
  "total_row =
     [CNone, CNone, CStr ''TOTAL (CAD)'', CNone, CNone, CNone, CNone, CNone, CNone,
      CStr ''65.69'']"

text \<open>An item row whose quantity is not a number.\<close>

definition bad_quantity_row :: "cell list" where
  "bad_quantity_row =
     [CStr ''1'', CStr ''011120225'', CStr ''COFFEE'', CNone, CNone, CNone, CNone,
      CStr ''n/a'', CStr ''3.91'', CStr ''62.56'']"

text \<open>An item row with a code that is not in the list of known items.\<close>

definition other_item_row :: "cell list" where
  "other_item_row =
     [CStr ''1'', CStr ''999999999'', CStr ''MUG'', CNone, CNone, CNone, CNone,
      CInt 2, CStr ''5.00'', CFloat 1000 2]"

definition example_db :: "db_row list" where
  "example_db =
     [\<lparr>Item_Code_col = ''11120225'', GL_Code_col = ''5010'', GL_Description_col = ''FOOD''\<rparr>]"

section \<open>Evaluation\<close>

lemmas string_defs = is_digit_def isdigit_char_def isdigit_def digit_val_def digits_val_def
  float_str_def match_amount_def last_amount_def lstrip0_def

lemmas repr_defs = hex_digit_def str_nat.simps str_int_def repr_float_def printable_def
  repr_char_def repr_str_def str_row_def

lemmas row_defs = match_code_def is_header_def row_totals_def parse_line_item_def
  process_row_def table_pass_def init_state_def mk_item_def Let_def

lemmas example_defs = item_row_def header_row_def subtotal_row_def labelled_item_row_def
  shipping_row_no_code_def shipping_row_def tax_summary_row_def bad_quantity_row_def
  other_item_row_def example_db_def tax_row_def total_row_def short_subtotal_row_def
  shipping_row_no_amount_def

lemma table_pass_item_row:
  "table_pass [[item_row]] =
     init_state\<lparr>items := [mk_item ''011120225'' 16 (1564 / 25)], tables_processed := True\<rparr>"
  by (simp add: item_row_def repr_defs string_defs row_defs)

lemma table_pass_empty: "table_pass [] = init_state"
  by (simp add: table_pass_def)

section \<open>The table pass: invariants\<close>

lemma fold_invariant:
  "(\<And>x s. P s \<Longrightarrow> P (f x s)) \<Longrightarrow> P s \<Longrightarrow> P (fold f xs s)"
  by (induction xs arbitrary: s) auto

lemma table_pass_invariant:
  assumes "P init_state" and "\<And>row st. P st \<Longrightarrow> P (process_row row st)"
  shows "P (table_pass tables)"
  unfolding table_pass_def
  by (rule fold_invariant, rule fold_invariant) (use assms in auto)

lemma row_totals_frame:
  "items (row_totals rs st) = items st"
  "tables_processed (row_totals rs st) = tables_processed st"
  "shipping_amount (row_totals rs st) = shipping_amount st"
  by (simp_all add: row_totals_def split: option.splits)

lemma parse_line_item_cases:
  "parse_line_item row st = st
   \<or> (\<exists>c q a. 0 < q \<and> 0 < a
        \<and> parse_line_item row st = st\<lparr>items := items st @ [mk_item c q a], tables_processed := True\<rparr>)"
  by (auto simp: parse_line_item_def split: cell.splits option.splits)

text \<open>A row leaves the items as they are or appends one item with positive numbers.\<close>

lemma process_row_items:
  "items (process_row row st) = items st \<and> tables_processed (process_row row st) = tables_processed st
   \<or> (\<exists>c q a. 0 < q \<and> 0 < a
        \<and> items (process_row row st) = items st @ [mk_item c q a]
        \<and> tables_processed (process_row row st))"
proof -
  define Q where "Q s \<longleftrightarrow>
      items s = items st \<and> tables_processed s = tables_processed st
      \<or> (\<exists>c q a. 0 < q \<and> 0 < a \<and> items s = items st @ [mk_item c q a] \<and> tables_processed s)"
    for s :: table_state
  let ?st1 = "row_totals (str_row row) st"
  have q0: "Q st"
    by (simp add: Q_def)
  have q1: "Q ?st1"
    by (simp add: Q_def row_totals_frame)
  have q2: "Q (?st1\<lparr>shipping_amount := v\<rparr>)" for v
    by (simp add: Q_def row_totals_frame)
  have q3: "Q (parse_line_item row ?st1)"
  proof -
    from parse_line_item_cases [of row ?st1]
    consider "parse_line_item row ?st1 = ?st1"
      | c q a where "0 < q" "0 < a"
          "parse_line_item row ?st1 = ?st1\<lparr>items := items ?st1 @ [mk_item c q a], tables_processed := True\<rparr>"
      by blast
    then show ?thesis
    proof cases
      case 1
      then show ?thesis using q1 by simp
    next
      case 2
      then have "items (parse_line_item row ?st1) = items st @ [mk_item c q a]"
        and "tables_processed (parse_line_item row ?st1)"
        by (simp_all add: row_totals_frame)
      with 2(1,2) show ?thesis unfolding Q_def by blast
    qed
  qed
  have "Q (process_row row st)"
    by (simp add: process_row_def Let_def q0 q1 q2 q3 split: option.splits)
  then show ?thesis
    by (simp add: Q_def)
qed

lemma mk_item_fields:
  "Item_Code (mk_item c q a) = c" "Quantity (mk_item c q a) = q" "Line_Total (mk_item c q a) = a"
  by (simp_all add: mk_item_def)

lemma table_pass_positive:
  "\<forall>it \<in> set (items (table_pass tables)). 0 < Quantity it \<and> 0 < Line_Total it"
proof (rule table_pass_invariant)
  show "\<forall>it \<in> set (items init_state). 0 < Quantity it \<and> 0 < Line_Total it"
    by (simp add: init_state_def)
next
  fix row and st :: table_state
  assume "\<forall>it \<in> set (items st). 0 < Quantity it \<and> 0 < Line_Total it"
  then show "\<forall>it \<in> set (items (process_row row st)). 0 < Quantity it \<and> 0 < Line_Total it"
    using process_row_items [of row st] by (auto simp: mk_item_fields)
qed

text \<open>The flag \<^verbatim>\<open>tables_processed\<close> is set exactly when the table pass has an item.\<close>

lemma table_pass_flag:
  "tables_processed (table_pass tables) = (items (table_pass tables) \<noteq> [])"
proof (rule table_pass_invariant)
  show "tables_processed init_state = (items init_state \<noteq> [])"
    by (simp add: init_state_def)
next
  fix row and st :: table_state
  assume "tables_processed st = (items st \<noteq> [])"
  then show "tables_processed (process_row row st) = (items (process_row row st) \<noteq> [])"
    using process_row_items [of row st] by auto
qed

text \<open>A cell that holds no number fails the test of the script or makes \<^verbatim>\<open>float\<close> raise.\<close>

lemma not_is_numeric: "\<not> is_numeric c \<Longrightarrow> \<not> numeric_cell c \<or> float_cell c = None"
  by (cases c) simp_all

lemma process_row_discards:
  assumes "length row < 10 \<or> \<not> is_numeric (row ! 7) \<or> \<not> is_numeric (row ! 9)"
  shows "items (process_row row st) = items st"
proof -
  have "items (parse_line_item row st') = items st'"
    if "\<not> is_numeric (row ! 7) \<or> \<not> is_numeric (row ! 9)" for st'
    using that not_is_numeric [of "row ! 7"] not_is_numeric [of "row ! 9"]
    by (auto simp: parse_line_item_def split: cell.splits option.splits)
  with assms show ?thesis
    by (auto simp: process_row_def Let_def row_totals_frame split: option.splits)
qed

lemma extracted_items_cases:
  "extracted_items text tables =
     (if items (table_pass tables) \<noteq> [] then items (table_pass tables)
      else if filter (\<lambda>item. isin (Item_Code item) text) sample_items \<noteq> []
        then filter (\<lambda>item. isin (Item_Code item) text) sample_items
      else concat (map line_items (split_nl text)))"
  by (simp add: extracted_items_def extract_items_from_starbucks_invoice_def Let_def table_pass_flag)

lemma extracted_items_item_row:
  "extracted_items text [[item_row]] = [mk_item ''011120225'' 16 (1564 / 25)]"
  by (simp add: extracted_items_cases table_pass_item_row)

section \<open>Matching: lemmas\<close>

lemma match_gl_frame:
  "Item_Code (match_gl db it) = Item_Code it \<and> Quantity (match_gl db it) = Quantity it
   \<and> Line_Total (match_gl db it) = Line_Total it"
  by (simp add: match_gl_def Let_def split: list.splits)

lemma filter_Cons_mem: "filter P xs = r # rs \<Longrightarrow> r \<in> set xs \<and> P r"
proof -
  assume h: "filter P xs = r # rs"
  have "r \<in> set (filter P xs)" by (simp add: h)
  then show ?thesis by simp
qed

lemma match_gl_both:
  "(\<exists>r \<in> set db. GL_Code (match_gl db it) = Some (GL_Code_col r)
        \<and> GL_Description (match_gl db it) = Some (GL_Description_col r))
   \<or> (GL_Code (match_gl db it) = Some ''ASK BOSS''
        \<and> GL_Description (match_gl db it) = Some ''ASK BOSS FOR PROPER GL'')"
  by (auto simp: match_gl_def Let_def split: list.splits dest: filter_Cons_mem)

lemma filter_find: "filter P xs = r # rs \<Longrightarrow> find P xs = Some r"
  by (induction xs) (auto split: if_splits)

lemma match_gl_stripped:
  assumes "\<forall>r \<in> set db. Item_Code_col r \<noteq> Item_Code it"
    and "r \<in> set db" and "lstrip0 (Item_Code_col r) = lstrip0 (Item_Code it)"
  shows "\<exists>r0. find (\<lambda>r'. lstrip0 (Item_Code_col r') = lstrip0 (Item_Code it)) db = Some r0
      \<and> GL_Code (match_gl db it) = Some (GL_Code_col r0)
      \<and> GL_Description (match_gl db it) = Some (GL_Description_col r0)"
proof -
  have exact: "filter (\<lambda>r. Item_Code_col r = Item_Code it) db = []"
    using assms(1) by (simp add: filter_empty_conv)
  obtain r0 rs
    where f: "filter (\<lambda>r'. lstrip0 (Item_Code_col r') = lstrip0 (Item_Code it)) db = r0 # rs"
    using assms(2,3)
    by (cases "filter (\<lambda>r'. lstrip0 (Item_Code_col r') = lstrip0 (Item_Code it)) db")
      (auto simp: filter_empty_conv)
  from f have "find (\<lambda>r'. lstrip0 (Item_Code_col r') = lstrip0 (Item_Code it)) db = Some r0"
    by (rule filter_find)
  moreover have "GL_Code (match_gl db it) = Some (GL_Code_col r0)
      \<and> GL_Description (match_gl db it) = Some (GL_Description_col r0)"
    using exact f by (simp add: match_gl_def Let_def)
  ultimately show ?thesis by blast
qed

lemma match_gl_unmatched:
  assumes "\<forall>r \<in> set db. Item_Code_col r \<noteq> Item_Code it
             \<and> lstrip0 (Item_Code_col r) \<noteq> lstrip0 (Item_Code it)"
  shows "GL_Code (match_gl db it) = Some ''ASK BOSS''
      \<and> GL_Description (match_gl db it) = Some ''ASK BOSS FOR PROPER GL''"
proof -
  have "filter (\<lambda>r. Item_Code_col r = Item_Code it) db = []"
    using assms by (simp add: filter_empty_conv)
  moreover have "filter (\<lambda>r'. lstrip0 (Item_Code_col r') = lstrip0 (Item_Code it)) db = []"
    using assms by (simp add: filter_empty_conv)
  ultimately show ?thesis by (simp add: match_gl_def Let_def)
qed

lemma fst_process:
  "fst (process_starbucks_invoice text tables db) = map (match_gl db) (extracted_items text tables)"
  by (simp add: process_starbucks_invoice_def Let_def)

section \<open>The summary: lemmas\<close>

lemma add_to_summary_map_of:
  "map_of (add_to_summary x acc) d =
     (if Item_Code x \<noteq> ''000173080'' \<and> get_GL_Description x = d
      then Some ((case map_of acc d of Some v \<Rightarrow> v | None \<Rightarrow> 0) + Line_Total x)
      else map_of acc d)"
  by (auto simp: add_to_summary_def Let_def update_conv' split: option.splits)

lemma fold_summary_map_of:
  "map_of (fold add_to_summary its acc) d =
     (if bucket d its = []
      then map_of acc d
      else Some ((case map_of acc d of Some v \<Rightarrow> v | None \<Rightarrow> 0)
                 + sum_list (map Line_Total (bucket d its))))"
proof (induction its arbitrary: acc)
  case Nil
  then show ?case by (simp add: bucket_def)
next
  case (Cons x its)
  show ?case
    using Cons.IH [of "add_to_summary x acc"]
    by (simp add: bucket_def add_to_summary_map_of split: option.splits)
qed

lemma generate_summary_map_of:
  "map_of (generate_summary its) d =
     (if bucket d its = [] then None
      else Some (sum_list (map Line_Total (bucket d its))))"
  by (simp add: generate_summary_def fold_summary_map_of) (simp add: bucket_def)


lemma table_pass_other_item_row:
  "table_pass [[other_item_row]] =
     init_state\<lparr>items := [mk_item ''999999999'' 2 10], tables_processed := True\<rparr>"
  by (simp add: other_item_row_def repr_defs string_defs row_defs)

lemma extracted_items_other_item_row:
  "extracted_items text [[other_item_row]] = [mk_item ''999999999'' 2 10]"
  by (simp add: extracted_items_cases table_pass_other_item_row)

section \<open>Totals: lemmas\<close>

lemma is_digit_not_dot: "is_digit c \<Longrightarrow> c \<noteq> CHR ''.''"
  by (auto simp: is_digit_def)

lemma match_amount_float:
  assumes "match_amount s = Some (m, rest)"
  shows "float_str m \<noteq> None"
proof -
  let ?ds = "takeWhile is_digit s"
  from assms obtain a b where m: "m = ?ds @ [CHR ''.'', a, b]"
    and ne: "?ds \<noteq> []" and ab: "is_digit a" "is_digit b"
    by (auto simp: match_amount_def Let_def split: if_splits list.splits)
  have ds: "\<forall>c \<in> set ?ds. is_digit c"
    by (auto dest: set_takeWhileD)
  then have nodot: "filter (\<lambda>c. c = CHR ''.'') ?ds = []"
    by (auto simp: filter_empty_conv dest: is_digit_not_dot)
  have "list_all (\<lambda>c. is_digit c \<or> c = CHR ''.'') m"
    using ds ab by (simp add: m list_all_iff)
  moreover have "list_ex is_digit m"
    using ab by (simp add: m list_ex_iff)
  moreover have "length (filter (\<lambda>c. c = CHR ''.'') m) \<le> 1"
    using ab nodot by (auto simp: m dest: is_digit_not_dot)
  ultimately show ?thesis
    by (simp add: float_str_def)
qed

lemma findall_amounts_float: "n \<in> set (findall_amounts s) \<Longrightarrow> float_str n \<noteq> None"
proof (induction s rule: findall_amounts.induct)
  case 1
  then show ?case by simp
next
  case (2 c cs)
  then show ?case
    by (auto split: option.splits dest: match_amount_float)
qed

text \<open>A value is found exactly when the pattern has a match: \<^verbatim>\<open>float\<close> cannot fail there.\<close>

lemma last_amount_None: "last_amount s = None \<longleftrightarrow> findall_amounts s = []"
proof (cases "findall_amounts s")
  case Nil
  then show ?thesis by (simp add: last_amount_def)
next
  case (Cons n ns)
  have "last (n # ns) \<in> set (findall_amounts s)"
    unfolding Cons by (rule last_in_set) simp
  then have "float_str (last (n # ns)) \<noteq> None"
    by (rule findall_amounts_float)
  with Cons show ?thesis by (simp add: last_amount_def)
qed

lemma parse_line_item_frame:
  "subtotal (parse_line_item row st) = subtotal st"
  "tax (parse_line_item row st) = tax st"
  "total_cad (parse_line_item row st) = total_cad st"
  "shipping_amount (parse_line_item row st) = shipping_amount st"
  by (simp_all add: parse_line_item_def split: cell.splits option.splits)

lemma parse_line_item_no_code:
  "\<forall>s. row ! 1 = CStr s \<longrightarrow> \<not> match_code s \<Longrightarrow> items (parse_line_item row st) = items st"
  by (simp add: parse_line_item_def split: cell.splits option.splits)

text \<open>What the totals chain does to each of the three accumulators.\<close>

lemma row_totals_subtotal:
  "subtotal (row_totals rs st) =
     (if isin ''SUB TOTAL'' rs then (case last_amount rs of Some v \<Rightarrow> v | None \<Rightarrow> subtotal st)
      else subtotal st)"
  by (simp add: row_totals_def split: option.splits)

lemma row_totals_tax:
  "tax (row_totals rs st) =
     (if \<not> isin ''SUB TOTAL'' rs \<and> isin ''TAX'' rs \<and> \<not> isin ''SUMMARY'' rs
      then (case last_amount rs of Some v \<Rightarrow> v | None \<Rightarrow> tax st)
      else tax st)"
  by (simp add: row_totals_def split: option.splits)

lemma row_totals_total:
  "total_cad (row_totals rs st) =
     (if \<not> isin ''SUB TOTAL'' rs \<and> \<not> (isin ''TAX'' rs \<and> \<not> isin ''SUMMARY'' rs)
         \<and> isin ''TOTAL (CAD)'' rs
      then (case last_amount rs of Some v \<Rightarrow> v | None \<Rightarrow> total_cad st)
      else total_cad st)"
  by (auto simp: row_totals_def split: option.splits)

text \<open>The three accumulators after a row that is long enough and not a header.\<close>

lemma process_row_totals:
  assumes "10 \<le> length row" and "\<not> is_header row"
  shows "subtotal (process_row row st) = subtotal (row_totals (str_row row) st)"
    and "tax (process_row row st) = tax (row_totals (str_row row) st)"
    and "total_cad (process_row row st) = total_cad (row_totals (str_row row) st)"
  using assms
  by (auto simp: process_row_def Let_def parse_line_item_frame split: option.splits)

lemma process_row_tax_summary:
  "isin ''SUMMARY'' (str_row row) \<Longrightarrow> tax (process_row row st) = tax st"
  by (auto simp: process_row_def Let_def parse_line_item_frame row_totals_tax split: option.splits)

lemma process_row_shipping_skipped:
  "isin ''SHIPPING'' (str_row row) \<or> isin ''HDLG'' (str_row row)
     \<Longrightarrow> items (process_row row st) = items st"
  by (auto simp: process_row_def Let_def row_totals_frame split: option.splits)

lemma process_row_shipping_routed:
  assumes "10 \<le> length row" and "\<not> is_header row"
    and "truthy (row ! 1)" and "is_str (row ! 1)"
    and "isin ''SHIPPING'' (str_row row) \<or> isin ''HDLG'' (str_row row)"
    and "findall_amounts (str_row row) \<noteq> []"
  shows "last_amount (str_row row) = Some (shipping_amount (process_row row st))"
proof -
  from assms(6) obtain v where v: "last_amount (str_row row) = Some v"
    using last_amount_None [of "str_row row"] by auto
  with assms(1-5) show ?thesis
    by (auto simp: process_row_def Let_def)
qed

lemma process_row_no_code:
  "\<forall>s. row ! 1 = CStr s \<longrightarrow> \<not> match_code s \<Longrightarrow> items (process_row row st) = items st"
  by (auto simp: process_row_def Let_def row_totals_frame parse_line_item_no_code split: option.splits)

lemma fold_frame:
  "(\<And>x s. g (f x s) = g s) \<Longrightarrow> g (fold f xs s) = g s"
  by (induction xs arbitrary: s) auto

lemma text_totals_line_frame:
  "shipping_amount (text_totals_line line st) = shipping_amount st"
  "items (text_totals_line line st) = items st"
  by (simp_all add: text_totals_line_def split: option.splits)

lemma text_shipping_line_frame:
  "subtotal (text_shipping_line line st) = subtotal st"
  "tax (text_shipping_line line st) = tax st"
  "total_cad (text_shipping_line line st) = total_cad st"
  by (simp_all add: text_shipping_line_def split: option.splits)

lemma text_totals_shipping:
  "shipping_amount (text_totals text st) = shipping_amount st"
  by (simp add: text_totals_def fold_frame [where g = shipping_amount] text_totals_line_frame)

lemma text_shipping_frame:
  "subtotal (text_shipping text st) = subtotal st"
  "tax (text_shipping text st) = tax st"
  "total_cad (text_shipping text st) = total_cad st"
  by (simp_all add: text_shipping_def fold_frame [where g = subtotal]
      fold_frame [where g = tax] fold_frame [where g = total_cad] text_shipping_line_frame)

lemma table_pass_all_totals:
  "table_pass [[subtotal_row, tax_row, total_row, shipping_row]] =
     init_state\<lparr>subtotal := 1564 / 25, tax := 313 / 100, total_cad := 6569 / 100,
       shipping_amount := 8307 / 25\<rparr>"
  by (simp add: example_defs repr_defs string_defs row_defs)

lemma table_pass_subtotal_row:
  "table_pass [[subtotal_row]] = init_state\<lparr>subtotal := 1564 / 25\<rparr>"
  by (simp add: example_defs repr_defs string_defs row_defs)

lemmas text_defs = text_totals_def text_totals_line_def text_shipping_def text_shipping_line_def

lemmas extract_defs = extract_items_from_starbucks_invoice_def sample_items_def line_items_def
  match_item_def match_sep_qty_price_def match_qty_price_def match_sep_price_def match_price_def
  run_def digit_or_dot_def non_digit_def

lemma no_items_in_subtotal_line: "extract_items_from_starbucks_invoice ''SUB TOTAL 99.99'' = []"
  by (simp add: extract_defs mk_item_def string_defs)

lemma str_row_subtotal_row:
  "str_row subtotal_row = ''[None, None, 'SUB TOTAL', None, None, None, None, None, None, '62.56']''"
  by (simp add: subtotal_row_def repr_defs Let_def)

lemma str_row_shipping_row:
  "str_row shipping_row
     = ''['2', '000173080', 'SHIPPING, HDLG', None, None, None, None, '1', '332.28', '332.28']''"
  by (simp add: shipping_row_def repr_defs Let_def)

lemma str_row_tax_row:
  "str_row tax_row = ''[None, None, 'TAX', None, None, None, None, None, None, '3.13']''"
  by (simp add: tax_row_def repr_defs Let_def)

lemma str_row_total_row:
  "str_row total_row
     = ''[None, None, 'TOTAL (CAD)', None, None, None, None, None, None, '65.69']''"
  by (simp add: total_row_def repr_defs Let_def)

lemma str_row_shipping_row_no_amount:
  "str_row shipping_row_no_amount
     = ''['2', '000173080', 'SHIPPING', None, None, None, None, '1', '5', '5']''"
  by (simp add: shipping_row_no_amount_def repr_defs Let_def)


lemma extracted_items_shipping_code:
  "extracted_items ''000173080'' [] = [mk_item ''000173080'' 1 (8307 / 25)]"
  by (simp add: extracted_items_cases table_pass_empty init_state_def sample_items_def mk_item_def)

lemma known_items_coffee:
  "filter (\<lambda>item. isin (Item_Code item) ''011120225 COFFEE'') sample_items
     = [mk_item ''011120225'' 16 (1564 / 25)]"
  by (simp add: sample_items_def mk_item_def)


section \<open>The claims\<close>

text \<open>
  C1, as amended. The table pass comes first: when it has an item, its items are the
  result and the list of known items is not looked at. When the table pass has no item,
  the known items are looked up before the line pattern: every entry of the list whose
  code is a substring of the text is emitted, in the order of the list, and when there is
  one the line pattern adds nothing.
\<close>

theorem table_pass_before_known_items:
  "(items (table_pass tables) \<noteq> []
      \<longrightarrow> fst (process_starbucks_invoice text tables db)
          = map (match_gl db) (items (table_pass tables)))
   \<and> (items (table_pass tables) = []
        \<and> filter (\<lambda>item. isin (Item_Code item) text) sample_items \<noteq> []
      \<longrightarrow> fst (process_starbucks_invoice text tables db)
          = map (match_gl db) (filter (\<lambda>item. isin (Item_Code item) text) sample_items))"
  by (simp add: fst_process extracted_items_cases)

theorem table_pass_before_known_items_witness:
  "items (table_pass [[other_item_row]]) \<noteq> []
   \<and> map Item_Code (fst (process_starbucks_invoice ''011120225 COFFEE'' [[other_item_row]] []))
       = [''999999999'']
   \<and> items (table_pass []) = []
   \<and> filter (\<lambda>item. isin (Item_Code item) ''011120225 COFFEE'') sample_items \<noteq> []
   \<and> map Item_Code (fst (process_starbucks_invoice ''011120225 COFFEE'' [] []))
       = [''011120225'']"
proof -
  have t1: "items (table_pass [[other_item_row]]) \<noteq> []"
    by (simp add: table_pass_other_item_row)
  have t2: "items (table_pass []) = []"
    by (simp add: table_pass_empty init_state_def)
  have k: "filter (\<lambda>item. isin (Item_Code item) ''011120225 COFFEE'') sample_items \<noteq> []"
    unfolding known_items_coffee by simp
  from table_pass_before_known_items [of "[[other_item_row]]" "''011120225 COFFEE''" "[]"] t1
  have a: "map Item_Code (fst (process_starbucks_invoice ''011120225 COFFEE'' [[other_item_row]] []))
       = [''999999999'']"
    by (simp add: table_pass_other_item_row match_gl_frame mk_item_fields)
  from table_pass_before_known_items [of "[]" "''011120225 COFFEE''" "[]"] t2 k
  have "fst (process_starbucks_invoice ''011120225 COFFEE'' [] [])
      = map (match_gl []) (filter (\<lambda>item. isin (Item_Code item) ''011120225 COFFEE'') sample_items)"
    by blast
  then have b: "map Item_Code (fst (process_starbucks_invoice ''011120225 COFFEE'' [] []))
       = [''011120225'']"
    unfolding known_items_coffee by (simp add: match_gl_frame mk_item_fields)
  from t1 t2 k a b show ?thesis by blast
qed

text \<open>
  C1 as stated fails: with an item row in the tables, a known code in the text is not
  emitted and the item of the table is the result.
\<close>

theorem known_items_not_first_counterexample:
  "isin ''011120225'' ''011120225 COFFEE''
   \<and> map Item_Code (fst (process_starbucks_invoice ''011120225 COFFEE'' [[other_item_row]] []))
       = [''999999999'']"
  by (simp add: fst_process extracted_items_other_item_row match_gl_frame mk_item_fields)

text \<open>
  C2, as amended. When the table pass has set subtotal, tax and total, all three to a
  value other than zero, the scan of the text leaves the three as they are; and when the
  table pass has set the shipping amount to a value other than zero, the scan of the text
  leaves the shipping amount as it is.
\<close>

theorem text_pass_keeps_table_totals:
  assumes "process_starbucks_invoice text tables db = (its, ship, sub, tx, tot)"
  shows "(subtotal (table_pass tables) \<noteq> 0 \<and> tax (table_pass tables) \<noteq> 0
            \<and> total_cad (table_pass tables) \<noteq> 0
          \<longrightarrow> sub = subtotal (table_pass tables) \<and> tx = tax (table_pass tables)
              \<and> tot = total_cad (table_pass tables))
      \<and> (shipping_amount (table_pass tables) \<noteq> 0 \<longrightarrow> ship = shipping_amount (table_pass tables))"
proof -
  let ?st = "table_pass tables"
  from assms have r: "ship = shipping_amount (text_shipping text (text_totals text ?st))"
    "sub = subtotal (text_shipping text (text_totals text ?st))"
    "tx = tax (text_shipping text (text_totals text ?st))"
    "tot = total_cad (text_shipping text (text_totals text ?st))"
    by (simp_all add: process_starbucks_invoice_def Let_def)
  have "sub = subtotal ?st \<and> tx = tax ?st \<and> tot = total_cad ?st"
    if "subtotal ?st \<noteq> 0 \<and> tax ?st \<noteq> 0 \<and> total_cad ?st \<noteq> 0"
    using that by (simp add: r text_shipping_frame text_totals_def)
  moreover have "ship = shipping_amount ?st" if "shipping_amount ?st \<noteq> 0"
    using that by (simp add: r text_shipping_def text_totals_shipping)
  ultimately show ?thesis by blast
qed

theorem text_pass_keeps_table_totals_witness:
  "subtotal (table_pass [[subtotal_row, tax_row, total_row, shipping_row]]) \<noteq> 0
   \<and> tax (table_pass [[subtotal_row, tax_row, total_row, shipping_row]]) \<noteq> 0
   \<and> total_cad (table_pass [[subtotal_row, tax_row, total_row, shipping_row]]) \<noteq> 0
   \<and> shipping_amount (table_pass [[subtotal_row, tax_row, total_row, shipping_row]]) \<noteq> 0
   \<and> process_starbucks_invoice ''SUB TOTAL 99.99 SHIPPING 1.00''
         [[subtotal_row, tax_row, total_row, shipping_row]] []
       = ([], 8307 / 25, 1564 / 25, 313 / 100, 6569 / 100)"
proof -
  let ?T = "[[subtotal_row, tax_row, total_row, shipping_row]]"
  let ?text = "''SUB TOTAL 99.99 SHIPPING 1.00''"
  have nz: "subtotal (table_pass ?T) \<noteq> 0" "tax (table_pass ?T) \<noteq> 0"
    "total_cad (table_pass ?T) \<noteq> 0" "shipping_amount (table_pass ?T) \<noteq> 0"
    by (simp_all add: table_pass_all_totals init_state_def)
  have e: "extract_items_from_starbucks_invoice ?text = []"
    by (simp add: extract_defs mk_item_def string_defs)
  have its: "fst (process_starbucks_invoice ?text ?T []) = []"
    by (simp add: fst_process extracted_items_def Let_def table_pass_all_totals init_state_def e)
  obtain its ship sub tx tot
    where p: "process_starbucks_invoice ?text ?T [] = (its, ship, sub, tx, tot)"
    by (metis prod_cases5)
  from text_pass_keeps_table_totals [OF p] nz
  have "sub = 1564 / 25 \<and> tx = 313 / 100 \<and> tot = 6569 / 100 \<and> ship = 8307 / 25"
    by (simp add: table_pass_all_totals init_state_def)
  moreover from its p have "its = []" by simp
  ultimately show ?thesis using nz p by simp
qed

text \<open>
  C2 as stated fails: the subtotal of the table pass is overwritten by the text when the
  tax or the total is still zero.
\<close>

theorem text_pass_overwrites_subtotal_counterexample:
  "subtotal (table_pass [[subtotal_row]]) = 1564 / 25
   \<and> process_starbucks_invoice ''SUB TOTAL 99.99'' [[subtotal_row]] [] = ([], 0, 9999 / 100, 0, 0)"
  by (simp add: process_starbucks_invoice_def extracted_items_def no_items_in_subtotal_line Let_def
      table_pass_subtotal_row init_state_def text_defs string_defs)

text \<open>
  C3, as amended. For a row of at least ten cells that is not a header and has a
  decimal number in its text: the last such number goes to the subtotal when the text has
  \<^verbatim>\<open>SUB TOTAL\<close>, else to the tax when it has \<^verbatim>\<open>TAX\<close> without \<^verbatim>\<open>SUMMARY\<close>, else to the
  total when it has \<^verbatim>\<open>TOTAL (CAD)\<close>; it goes to the shipping amount when the text has
  \<^verbatim>\<open>SHIPPING\<close> or \<^verbatim>\<open>HDLG\<close> and column 1 holds a string that is not empty. Every row
  with \<^verbatim>\<open>SHIPPING\<close> or \<^verbatim>\<open>HDLG\<close> adds no item, and no row at all adds an item unless
  column 1 holds a nine-digit code.
\<close>

theorem aggregate_rows_routed:
  "(10 \<le> length row \<and> \<not> is_header row \<and> findall_amounts (str_row row) \<noteq> []
      \<longrightarrow> (isin ''SUB TOTAL'' (str_row row)
              \<longrightarrow> last_amount (str_row row) = Some (subtotal (process_row row st)))
        \<and> (\<not> isin ''SUB TOTAL'' (str_row row) \<and> isin ''TAX'' (str_row row)
              \<and> \<not> isin ''SUMMARY'' (str_row row)
              \<longrightarrow> last_amount (str_row row) = Some (tax (process_row row st)))
        \<and> (\<not> isin ''SUB TOTAL'' (str_row row)
              \<and> \<not> (isin ''TAX'' (str_row row) \<and> \<not> isin ''SUMMARY'' (str_row row))
              \<and> isin ''TOTAL (CAD)'' (str_row row)
              \<longrightarrow> last_amount (str_row row) = Some (total_cad (process_row row st)))
        \<and> ((isin ''SHIPPING'' (str_row row) \<or> isin ''HDLG'' (str_row row))
              \<and> truthy (row ! 1) \<and> is_str (row ! 1)
              \<longrightarrow> last_amount (str_row row) = Some (shipping_amount (process_row row st))))
   \<and> (isin ''SHIPPING'' (str_row row) \<or> isin ''HDLG'' (str_row row)
        \<longrightarrow> items (process_row row st) = items st)
   \<and> ((\<forall>s. row ! 1 = CStr s \<longrightarrow> \<not> match_code s)
        \<longrightarrow> items (process_row row st) = items st)"
proof -
  have routed: "(isin ''SUB TOTAL'' (str_row row)
              \<longrightarrow> last_amount (str_row row) = Some (subtotal (process_row row st)))
        \<and> (\<not> isin ''SUB TOTAL'' (str_row row) \<and> isin ''TAX'' (str_row row)
              \<and> \<not> isin ''SUMMARY'' (str_row row)
              \<longrightarrow> last_amount (str_row row) = Some (tax (process_row row st)))
        \<and> (\<not> isin ''SUB TOTAL'' (str_row row)
              \<and> \<not> (isin ''TAX'' (str_row row) \<and> \<not> isin ''SUMMARY'' (str_row row))
              \<and> isin ''TOTAL (CAD)'' (str_row row)
              \<longrightarrow> last_amount (str_row row) = Some (total_cad (process_row row st)))
        \<and> ((isin ''SHIPPING'' (str_row row) \<or> isin ''HDLG'' (str_row row))
              \<and> truthy (row ! 1) \<and> is_str (row ! 1)
              \<longrightarrow> last_amount (str_row row) = Some (shipping_amount (process_row row st)))"
    if len: "10 \<le> length row" and hdr: "\<not> is_header row"
      and nums: "findall_amounts (str_row row) \<noteq> []"
  proof -
    from nums obtain v where v: "last_amount (str_row row) = Some v"
      using last_amount_None [of "str_row row"] by auto
    have "isin ''SUB TOTAL'' (str_row row)
        \<longrightarrow> last_amount (str_row row) = Some (subtotal (process_row row st))"
      by (simp add: process_row_totals [OF len hdr] row_totals_subtotal v)
    moreover have "\<not> isin ''SUB TOTAL'' (str_row row) \<and> isin ''TAX'' (str_row row)
              \<and> \<not> isin ''SUMMARY'' (str_row row)
        \<longrightarrow> last_amount (str_row row) = Some (tax (process_row row st))"
      by (simp add: process_row_totals [OF len hdr] row_totals_tax v)
    moreover have "\<not> isin ''SUB TOTAL'' (str_row row)
              \<and> \<not> (isin ''TAX'' (str_row row) \<and> \<not> isin ''SUMMARY'' (str_row row))
              \<and> isin ''TOTAL (CAD)'' (str_row row)
        \<longrightarrow> last_amount (str_row row) = Some (total_cad (process_row row st))"
      by (simp add: process_row_totals [OF len hdr] row_totals_total v)
    moreover have "(isin ''SHIPPING'' (str_row row) \<or> isin ''HDLG'' (str_row row))
              \<and> truthy (row ! 1) \<and> is_str (row ! 1)
        \<longrightarrow> last_amount (str_row row) = Some (shipping_amount (process_row row st))"
      using process_row_shipping_routed [OF len hdr _ _ _ nums] by blast
    ultimately show ?thesis by blast
  qed
  have skipped: "isin ''SHIPPING'' (str_row row) \<or> isin ''HDLG'' (str_row row)
      \<longrightarrow> items (process_row row st) = items st"
    using process_row_shipping_skipped by blast
  have no_code: "(\<forall>s. row ! 1 = CStr s \<longrightarrow> \<not> match_code s)
      \<longrightarrow> items (process_row row st) = items st"
    using process_row_no_code by blast
  from routed skipped no_code show ?thesis by blast
qed

theorem aggregate_rows_routed_witness:
  "subtotal (process_row subtotal_row init_state) = 1564 / 25
   \<and> items (process_row subtotal_row init_state) = []
   \<and> tax (process_row tax_row init_state) = 313 / 100
   \<and> total_cad (process_row total_row init_state) = 6569 / 100
   \<and> shipping_amount (process_row shipping_row init_state) = 8307 / 25
   \<and> items (process_row shipping_row init_state) = []
   \<and> findall_amounts (str_row shipping_row_no_amount) = []
   \<and> items (process_row shipping_row_no_amount init_state) = []"
proof -
  have s1: "10 \<le> length subtotal_row" "\<not> is_header subtotal_row"
    by (simp_all add: subtotal_row_def is_header_def)
  have s2: "findall_amounts (str_row subtotal_row) \<noteq> []"
    "last_amount (str_row subtotal_row) = Some (1564 / 25)"
    "isin ''SUB TOTAL'' (str_row subtotal_row)"
    by (simp_all add: str_row_subtotal_row string_defs)
  have s3: "\<forall>s. subtotal_row ! 1 = CStr s \<longrightarrow> \<not> match_code s"
    by (simp add: subtotal_row_def)
  have t1: "10 \<le> length tax_row" "\<not> is_header tax_row"
    by (simp_all add: tax_row_def is_header_def)
  have t2: "findall_amounts (str_row tax_row) \<noteq> []"
    "last_amount (str_row tax_row) = Some (313 / 100)"
    "\<not> isin ''SUB TOTAL'' (str_row tax_row)" "isin ''TAX'' (str_row tax_row)"
    "\<not> isin ''SUMMARY'' (str_row tax_row)"
    by (simp_all add: str_row_tax_row string_defs)
  have c1: "10 \<le> length total_row" "\<not> is_header total_row"
    by (simp_all add: total_row_def is_header_def)
  have c2: "findall_amounts (str_row total_row) \<noteq> []"
    "last_amount (str_row total_row) = Some (6569 / 100)"
    "\<not> isin ''SUB TOTAL'' (str_row total_row)" "\<not> isin ''TAX'' (str_row total_row)"
    "isin ''TOTAL (CAD)'' (str_row total_row)"
    by (simp_all add: str_row_total_row string_defs)
  have h1: "10 \<le> length shipping_row" "\<not> is_header shipping_row"
    "truthy (shipping_row ! 1)" "is_str (shipping_row ! 1)"
    by (simp_all add: shipping_row_def is_header_def)
  have h2: "findall_amounts (str_row shipping_row) \<noteq> []"
    "last_amount (str_row shipping_row) = Some (8307 / 25)"
    "isin ''SHIPPING'' (str_row shipping_row)"
    by (simp_all add: str_row_shipping_row string_defs)
  have n1: "findall_amounts (str_row shipping_row_no_amount) = []"
    "isin ''SHIPPING'' (str_row shipping_row_no_amount)"
    by (simp_all add: str_row_shipping_row_no_amount string_defs)
  from aggregate_rows_routed [of subtotal_row init_state] s1 s2 s3
  have a: "subtotal (process_row subtotal_row init_state) = 1564 / 25
      \<and> items (process_row subtotal_row init_state) = []"
    by (simp add: init_state_def)
  from aggregate_rows_routed [of tax_row init_state] t1 t2
  have b: "tax (process_row tax_row init_state) = 313 / 100"
    by simp
  from aggregate_rows_routed [of total_row init_state] c1 c2
  have c: "total_cad (process_row total_row init_state) = 6569 / 100"
    by simp
  from aggregate_rows_routed [of shipping_row init_state] h1 h2
  have d: "shipping_amount (process_row shipping_row init_state) = 8307 / 25
      \<and> items (process_row shipping_row init_state) = []"
    by (simp add: init_state_def)
  from aggregate_rows_routed [of shipping_row_no_amount init_state] n1(2)
  have e: "items (process_row shipping_row_no_amount init_state) = []"
    by (simp add: init_state_def)
  from a b c d e n1(1) show ?thesis by blast
qed

text \<open>
  C3 as stated fails in four places: an item row with \<^verbatim>\<open>SUB TOTAL\<close> in its description
  is accepted as an item; a shipping row without a string in column 1 does not set the
  shipping amount; a header row and a row of fewer than ten cells set no total.
\<close>

theorem aggregate_rows_counterexample:
  "isin ''SUB TOTAL'' (str_row labelled_item_row)
   \<and> items (process_row labelled_item_row init_state) = [mk_item ''011120225'' 16 (1564 / 25)]
   \<and> isin ''SHIPPING'' (str_row shipping_row_no_code)
   \<and> last_amount (str_row shipping_row_no_code) = Some (8307 / 25)
   \<and> shipping_amount (process_row shipping_row_no_code init_state) = 0
   \<and> isin ''SUB TOTAL'' (str_row header_row)
   \<and> last_amount (str_row header_row) = Some (1564 / 25)
   \<and> subtotal (process_row header_row init_state) = 0
   \<and> isin ''SUB TOTAL'' (str_row short_subtotal_row)
   \<and> last_amount (str_row short_subtotal_row) = Some (1564 / 25)
   \<and> subtotal (process_row short_subtotal_row init_state) = 0"
  by (simp add: example_defs repr_defs string_defs row_defs)

text \<open>
  C4. An item whose code has no exact match in the reference table, and whose code
  without leading zeros equals that of a row of the table, gets the GL code and the GL
  description of the first row with that zero-stripped code.
\<close>

theorem zero_stripped_match:
  assumes "i < length (extracted_items text tables)"
    and "\<forall>r \<in> set db. Item_Code_col r \<noteq> Item_Code (extracted_items text tables ! i)"
    and "r \<in> set db"
    and "lstrip0 (Item_Code_col r) = lstrip0 (Item_Code (extracted_items text tables ! i))"
  shows "\<exists>r0. find (\<lambda>r'. lstrip0 (Item_Code_col r')
                          = lstrip0 (Item_Code (extracted_items text tables ! i))) db = Some r0
      \<and> GL_Code (fst (process_starbucks_invoice text tables db) ! i) = Some (GL_Code_col r0)
      \<and> GL_Description (fst (process_starbucks_invoice text tables db) ! i)
          = Some (GL_Description_col r0)"
proof -
  have "fst (process_starbucks_invoice text tables db) ! i
      = match_gl db (extracted_items text tables ! i)"
    using assms(1) by (simp add: fst_process)
  with match_gl_stripped [OF assms(2,3,4)] show ?thesis by simp
qed

theorem zero_stripped_match_witness:
  "GL_Code (fst (process_starbucks_invoice [] [[item_row]] example_db) ! 0) = Some ''5010''
   \<and> GL_Description (fst (process_starbucks_invoice [] [[item_row]] example_db) ! 0) = Some ''FOOD''"
proof -
  let ?r = "\<lparr>Item_Code_col = ''11120225'', GL_Code_col = ''5010'', GL_Description_col = ''FOOD''\<rparr>"
  have a1: "0 < length (extracted_items [] [[item_row]])"
    by (simp add: extracted_items_item_row)
  have a2: "\<forall>r \<in> set example_db. Item_Code_col r \<noteq> Item_Code (extracted_items [] [[item_row]] ! 0)"
    by (simp add: extracted_items_item_row example_db_def mk_item_def)
  have a3: "?r \<in> set example_db"
    by (simp add: example_db_def)
  have a4: "lstrip0 (Item_Code_col ?r) = lstrip0 (Item_Code (extracted_items [] [[item_row]] ! 0))"
    by (simp add: extracted_items_item_row mk_item_def lstrip0_def)
  have f: "find (\<lambda>r'. lstrip0 (Item_Code_col r')
                  = lstrip0 (Item_Code (extracted_items [] [[item_row]] ! 0))) example_db = Some ?r"
    by (simp add: extracted_items_item_row example_db_def mk_item_def lstrip0_def)
  from zero_stripped_match [OF a1 a2 a3 a4] show ?thesis
    by (simp add: f)
qed

text \<open>
  C5, as amended. An item whose code matches no row of the reference table, neither
  exactly nor without leading zeros, gets both sentinels; and unless its code is the
  shipping code \<^verbatim>\<open>000173080\<close> it is one of the items whose line totals add up to the
  amount of the summary under the sentinel description.
\<close>

theorem unmatched_item_in_summary:
  assumes "i < length (extracted_items text tables)"
    and "\<forall>r \<in> set db.
           Item_Code_col r \<noteq> Item_Code (extracted_items text tables ! i)
           \<and> lstrip0 (Item_Code_col r) \<noteq> lstrip0 (Item_Code (extracted_items text tables ! i))"
  shows "GL_Code (fst (process_starbucks_invoice text tables db) ! i) = Some ''ASK BOSS''
    \<and> GL_Description (fst (process_starbucks_invoice text tables db) ! i)
        = Some ''ASK BOSS FOR PROPER GL''
    \<and> (Item_Code (extracted_items text tables ! i) \<noteq> ''000173080''
        \<longrightarrow> fst (process_starbucks_invoice text tables db) ! i
              \<in> set (bucket ''ASK BOSS FOR PROPER GL''
                      (fst (process_starbucks_invoice text tables db)))
          \<and> map_of (generate_summary (fst (process_starbucks_invoice text tables db)))
                ''ASK BOSS FOR PROPER GL''
              = Some (sum_list (map Line_Total
                  (bucket ''ASK BOSS FOR PROPER GL''
                     (fst (process_starbucks_invoice text tables db))))))"
proof -
  let ?its = "extracted_items text tables"
  let ?its' = "fst (process_starbucks_invoice text tables db)"
  have nth: "?its' ! i = match_gl db (?its ! i)"
    using assms(1) by (simp add: fst_process)
  have gl: "GL_Code (?its' ! i) = Some ''ASK BOSS''
      \<and> GL_Description (?its' ! i) = Some ''ASK BOSS FOR PROPER GL''"
    unfolding nth using assms(2) by (rule match_gl_unmatched)
  have in_list: "?its' ! i \<in> set ?its'"
    using assms(1) by (simp add: fst_process)
  have summary: "?its' ! i \<in> set (bucket ''ASK BOSS FOR PROPER GL'' ?its')
      \<and> map_of (generate_summary ?its') ''ASK BOSS FOR PROPER GL''
          = Some (sum_list (map Line_Total (bucket ''ASK BOSS FOR PROPER GL'' ?its')))"
    if other: "Item_Code (?its ! i) \<noteq> ''000173080''"
  proof -
    have code: "Item_Code (?its' ! i) \<noteq> ''000173080''"
      unfolding nth using other by (simp add: match_gl_frame)
    with gl in_list have mem: "?its' ! i \<in> set (bucket ''ASK BOSS FOR PROPER GL'' ?its')"
      by (simp add: bucket_def get_GL_Description_def)
    then have "bucket ''ASK BOSS FOR PROPER GL'' ?its' \<noteq> []"
      by auto
    then have "map_of (generate_summary ?its') ''ASK BOSS FOR PROPER GL''
        = Some (sum_list (map Line_Total (bucket ''ASK BOSS FOR PROPER GL'' ?its')))"
      by (simp add: generate_summary_map_of)
    with mem show ?thesis by blast
  qed
  from gl summary show ?thesis by blast
qed

theorem unmatched_item_in_summary_witness:
  "GL_Code (fst (process_starbucks_invoice [] [[other_item_row]] example_db) ! 0) = Some ''ASK BOSS''
   \<and> GL_Description (fst (process_starbucks_invoice [] [[other_item_row]] example_db) ! 0)
       = Some ''ASK BOSS FOR PROPER GL''
   \<and> map_of (generate_summary (fst (process_starbucks_invoice [] [[other_item_row]] example_db)))
         ''ASK BOSS FOR PROPER GL'' = Some 10
   \<and> GL_Code (fst (process_starbucks_invoice ''000173080'' [] example_db) ! 0) = Some ''ASK BOSS''
   \<and> GL_Description (fst (process_starbucks_invoice ''000173080'' [] example_db) ! 0)
       = Some ''ASK BOSS FOR PROPER GL''"
proof -
  have a1: "0 < length (extracted_items [] [[other_item_row]])"
    by (simp add: extracted_items_other_item_row)
  have a2: "\<forall>r \<in> set example_db.
           Item_Code_col r \<noteq> Item_Code (extracted_items [] [[other_item_row]] ! 0)
           \<and> lstrip0 (Item_Code_col r) \<noteq> lstrip0 (Item_Code (extracted_items [] [[other_item_row]] ! 0))"
    by (simp add: extracted_items_other_item_row example_db_def mk_item_def lstrip0_def)
  have a3: "Item_Code (extracted_items [] [[other_item_row]] ! 0) \<noteq> ''000173080''"
    by (simp add: extracted_items_other_item_row mk_item_def)
  have b: "bucket ''ASK BOSS FOR PROPER GL'' (fst (process_starbucks_invoice [] [[other_item_row]] example_db))
      = [(mk_item ''999999999'' 2 10)\<lparr>GL_Code := Some ''ASK BOSS'',
           GL_Description := Some ''ASK BOSS FOR PROPER GL''\<rparr>]"
    by (simp add: fst_process extracted_items_other_item_row example_db_def mk_item_def
        match_gl_def lstrip0_def bucket_def get_GL_Description_def)
  have s1: "0 < length (extracted_items ''000173080'' [])"
    by (simp add: extracted_items_shipping_code)
  have s2: "\<forall>r \<in> set example_db.
           Item_Code_col r \<noteq> Item_Code (extracted_items ''000173080'' [] ! 0)
           \<and> lstrip0 (Item_Code_col r) \<noteq> lstrip0 (Item_Code (extracted_items ''000173080'' [] ! 0))"
    by (simp add: extracted_items_shipping_code example_db_def mk_item_def lstrip0_def)
  from unmatched_item_in_summary [OF a1 a2] a3
  have first: "GL_Code (fst (process_starbucks_invoice [] [[other_item_row]] example_db) ! 0)
        = Some ''ASK BOSS''
      \<and> GL_Description (fst (process_starbucks_invoice [] [[other_item_row]] example_db) ! 0)
        = Some ''ASK BOSS FOR PROPER GL''
      \<and> map_of (generate_summary (fst (process_starbucks_invoice [] [[other_item_row]] example_db)))
         ''ASK BOSS FOR PROPER GL'' = Some 10"
    by (simp add: b mk_item_def)
  from unmatched_item_in_summary [OF s1 s2]
  have second: "GL_Code (fst (process_starbucks_invoice ''000173080'' [] example_db) ! 0)
        = Some ''ASK BOSS''
      \<and> GL_Description (fst (process_starbucks_invoice ''000173080'' [] example_db) ! 0)
        = Some ''ASK BOSS FOR PROPER GL''"
    by blast
  from first second show ?thesis by blast
qed

text \<open>
  C5 as stated fails for the shipping item: without a row in the reference table it
  gets the sentinels, and the summary leaves it out.
\<close>

theorem unmatched_shipping_item_counterexample:
  "fst (process_starbucks_invoice ''000173080'' [] [])
     = [\<lparr>Item_Code = ''000173080'', Quantity = 1, Line_Total = 8307 / 25,
         GL_Code = Some ''ASK BOSS'', GL_Description = Some ''ASK BOSS FOR PROPER GL''\<rparr>]
   \<and> generate_summary (fst (process_starbucks_invoice ''000173080'' [] [])) = []"
proof -
  have "extracted_items ''000173080'' [] = [mk_item ''000173080'' 1 (8307 / 25)]"
    by (simp add: extracted_items_cases table_pass_empty init_state_def sample_items_def mk_item_def)
  then have its: "fst (process_starbucks_invoice ''000173080'' [] [])
     = [\<lparr>Item_Code = ''000173080'', Quantity = 1, Line_Total = 8307 / 25,
         GL_Code = Some ''ASK BOSS'', GL_Description = Some ''ASK BOSS FOR PROPER GL''\<rparr>]"
    by (simp add: fst_process match_gl_def mk_item_def)
  show ?thesis
    unfolding its by (simp add: generate_summary_def add_to_summary_def)
qed




text \<open>
  C7. Every item of the table pass has a positive quantity and a positive line total,
  and a row whose quantity cell (column 7) or amount cell (column 9) is missing or holds
  no number (neither an integer, nor a float, nor a numeric string) adds no item, whatever
  the state.
\<close>

theorem table_items_positive:
  "(\<forall>it \<in> set (items (table_pass tables)). 0 < Quantity it \<and> 0 < Line_Total it)
   \<and> (\<forall>row st. length row < 10 \<or> \<not> is_numeric (row ! 7) \<or> \<not> is_numeric (row ! 9)
        \<longrightarrow> items (process_row row st) = items st)"
  using table_pass_positive process_row_discards by blast

theorem table_items_positive_witness:
  "mk_item ''011120225'' 16 (1564 / 25) \<in> set (items (table_pass [[item_row]]))
   \<and> 0 < Quantity (mk_item ''011120225'' 16 (1564 / 25))
   \<and> 0 < Line_Total (mk_item ''011120225'' 16 (1564 / 25))
   \<and> \<not> is_numeric (bad_quantity_row ! 7)
   \<and> items (process_row bad_quantity_row init_state) = items init_state"
proof -
  have mem: "mk_item ''011120225'' 16 (1564 / 25) \<in> set (items (table_pass [[item_row]]))"
    by (simp add: table_pass_item_row)
  have bad: "\<not> is_numeric (bad_quantity_row ! 7)"
    by (simp add: bad_quantity_row_def string_defs)
  from table_items_positive [of "[[item_row]]"] mem
  have "0 < Quantity (mk_item ''011120225'' 16 (1564 / 25))
      \<and> 0 < Line_Total (mk_item ''011120225'' 16 (1564 / 25))"
    by blast
  moreover from table_items_positive [of "[[item_row]]"] bad
  have "items (process_row bad_quantity_row init_state) = items init_state"
    by blast
  ultimately show ?thesis using mem bad by blast
qed

text \<open>
  C8. When the table pass has no item and the extraction from the text (the known items
  and the line pattern) has none either, the run reports that no items were extracted and
  ends there; a report with a summary is only made of a list of items that is not empty.
\<close>

theorem no_items_no_summary:
  "(items (table_pass tables) = [] \<and> extract_items_from_starbucks_invoice text = []
      \<longrightarrow> main text tables db = No_Items_Extracted)
   \<and> (\<forall>r. main text tables db = Done r
        \<longrightarrow> report_items r \<noteq> [] \<and> report_summary r = generate_summary (report_items r))"
proof -
  have "extracted_items text tables = []"
    if "items (table_pass tables) = []" "extract_items_from_starbucks_invoice text = []"
    using that by (simp add: extracted_items_def)
  then have "items (table_pass tables) = [] \<and> extract_items_from_starbucks_invoice text = []
      \<longrightarrow> main text tables db = No_Items_Extracted"
    by (simp add: main_def process_starbucks_invoice_def Let_def)
  moreover have "\<forall>r. main text tables db = Done r
        \<longrightarrow> report_items r \<noteq> [] \<and> report_summary r = generate_summary (report_items r)"
    by (auto simp: main_def process_starbucks_invoice_def Let_def split: if_splits)
  ultimately show ?thesis by blast
qed

theorem no_items_no_summary_witness:
  "items (table_pass []) = [] \<and> extract_items_from_starbucks_invoice ''no items here'' = []
   \<and> main ''no items here'' [] [] = No_Items_Extracted
   \<and> main [] [[item_row]] example_db
       = Done \<lparr>report_items =
                 [\<lparr>Item_Code = ''011120225'', Quantity = 16, Line_Total = 1564 / 25,
                   GL_Code = Some ''5010'', GL_Description = Some ''FOOD''\<rparr>],
               report_summary = [(''FOOD'', 1564 / 25)], report_shipping = 0,
               report_subtotal = 1564 / 25, report_tax = 0, report_total = 1564 / 25\<rparr>
   \<and> generate_summary
         [\<lparr>Item_Code = ''011120225'', Quantity = 16, Line_Total = 1564 / 25,
           GL_Code = Some ''5010'', GL_Description = Some ''FOOD''\<rparr>]
       = [(''FOOD'', 1564 / 25)]"
proof -
  have t: "items (table_pass []) = []"
    by (simp add: table_pass_empty init_state_def)
  have e: "extract_items_from_starbucks_invoice ''no items here'' = []"
    by (simp add: extract_items_from_starbucks_invoice_def sample_items_def mk_item_def
        line_items_def match_item_def string_defs)
  have d: "main [] [[item_row]] example_db
       = Done \<lparr>report_items =
                 [\<lparr>Item_Code = ''011120225'', Quantity = 16, Line_Total = 1564 / 25,
                   GL_Code = Some ''5010'', GL_Description = Some ''FOOD''\<rparr>],
               report_summary = [(''FOOD'', 1564 / 25)], report_shipping = 0,
               report_subtotal = 1564 / 25, report_tax = 0, report_total = 1564 / 25\<rparr>"
    by (simp add: main_def process_starbucks_invoice_def Let_def extracted_items_item_row
        table_pass_item_row text_totals_def text_shipping_def text_totals_line_def
        text_shipping_line_def init_state_def example_db_def match_gl_def lstrip0_def
        mk_item_def generate_summary_def add_to_summary_def get_GL_Description_def
        last_amount_def)
  from no_items_no_summary [of "[]" "''no items here''" "[]"] t e
  have n: "main ''no items here'' [] [] = No_Items_Extracted"
    by blast
  from no_items_no_summary [of "[[item_row]]" "[]" example_db] d
  have "generate_summary
         [\<lparr>Item_Code = ''011120225'', Quantity = 16, Line_Total = 1564 / 25,
           GL_Code = Some ''5010'', GL_Description = Some ''FOOD''\<rparr>]
       = [(''FOOD'', 1564 / 25)]"
    by fastforce
  with t e d n show ?thesis by blast
qed

text \<open>
  C9, as amended. A table row whose text has \<^verbatim>\<open>TAX\<close> and \<^verbatim>\<open>SUMMARY\<close> leaves the tax as
  it is, and so does a line of the text that has \<^verbatim>\<open>TAX SUMMARY\<close>.
\<close>

theorem tax_summary_excluded:
  "(isin ''TAX'' (str_row row) \<and> isin ''SUMMARY'' (str_row row)
      \<longrightarrow> tax (process_row row st) = tax st)
   \<and> (isin ''TAX SUMMARY'' line
      \<longrightarrow> tax (text_totals_line line st) = tax st \<and> tax (text_shipping_line line st) = tax st)"
  by (simp add: process_row_tax_summary text_shipping_line_frame)
    (simp add: text_totals_line_def split: option.splits)

theorem tax_summary_excluded_witness:
  "isin ''TAX'' (str_row tax_summary_row) \<and> isin ''SUMMARY'' (str_row tax_summary_row)
   \<and> tax (process_row tax_summary_row (init_state\<lparr>tax := 5\<rparr>)) = 5
   \<and> isin ''TAX SUMMARY'' ''TAX SUMMARY 12.34''
   \<and> tax (text_totals_line ''TAX SUMMARY 12.34'' (init_state\<lparr>tax := 5\<rparr>)) = 5"
proof -
  have r: "isin ''TAX'' (str_row tax_summary_row) \<and> isin ''SUMMARY'' (str_row tax_summary_row)"
    by (simp add: tax_summary_row_def repr_defs Let_def)
  have l: "isin ''TAX SUMMARY'' ''TAX SUMMARY 12.34''"
    by simp
  from tax_summary_excluded [of tax_summary_row "init_state\<lparr>tax := 5\<rparr>" "''TAX SUMMARY 12.34''"] r l
  show ?thesis by (simp add: init_state_def)
qed

text \<open>
  C9 as stated fails for the text: a line with \<^verbatim>\<open>TAX\<close> and \<^verbatim>\<open>SUMMARY\<close> that does not
  have \<^verbatim>\<open>TAX SUMMARY\<close> sets the tax.
\<close>

theorem tax_from_summary_line_counterexample:
  "isin ''TAX'' ''SUMMARY OF TAX 12.34'' \<and> isin ''SUMMARY'' ''SUMMARY OF TAX 12.34''
   \<and> process_starbucks_invoice ''SUMMARY OF TAX 12.34'' [] [] = ([], 0, 0, 617 / 50, 0)"
proof -
  have e: "extract_items_from_starbucks_invoice ''SUMMARY OF TAX 12.34'' = []"
    by (simp add: extract_defs mk_item_def string_defs)
  show ?thesis
    by (simp add: process_starbucks_invoice_def extracted_items_def e Let_def
        table_pass_empty init_state_def text_defs string_defs)
qed

text \<open>
  C10. The matching loop keeps the list of items and, in each item, the item code, the
  quantity and the line total; after it every item has a GL code and a GL description,
  both of one row of the reference table or both the sentinels.
\<close>

theorem matching_only_adds_gl:
  "length (fst (process_starbucks_invoice text tables db)) = length (extracted_items text tables)
   \<and> (\<forall>i < length (extracted_items text tables).
        Item_Code (fst (process_starbucks_invoice text tables db) ! i)
          = Item_Code (extracted_items text tables ! i)
        \<and> Quantity (fst (process_starbucks_invoice text tables db) ! i)
          = Quantity (extracted_items text tables ! i)
        \<and> Line_Total (fst (process_starbucks_invoice text tables db) ! i)
          = Line_Total (extracted_items text tables ! i)
        \<and> ((\<exists>r \<in> set db.
               GL_Code (fst (process_starbucks_invoice text tables db) ! i) = Some (GL_Code_col r)
               \<and> GL_Description (fst (process_starbucks_invoice text tables db) ! i)
                   = Some (GL_Description_col r))
           \<or> (GL_Code (fst (process_starbucks_invoice text tables db) ! i) = Some ''ASK BOSS''
               \<and> GL_Description (fst (process_starbucks_invoice text tables db) ! i)
                   = Some ''ASK BOSS FOR PROPER GL'')))"
  using match_gl_frame match_gl_both by (simp add: fst_process)

theorem matching_only_adds_gl_witness:
  "(0::nat) < length (extracted_items [] [[item_row]])
   \<and> Item_Code (fst (process_starbucks_invoice [] [[item_row]] example_db) ! 0) = ''011120225''
   \<and> Quantity (fst (process_starbucks_invoice [] [[item_row]] example_db) ! 0) = 16
   \<and> Line_Total (fst (process_starbucks_invoice [] [[item_row]] example_db) ! 0) = 1564 / 25"
proof -
  have len: "(0::nat) < length (extracted_items [] [[item_row]])"
    by (simp add: extracted_items_item_row)
  from matching_only_adds_gl [of "[]" "[[item_row]]" example_db] len
  have "Item_Code (fst (process_starbucks_invoice [] [[item_row]] example_db) ! 0)
          = Item_Code (extracted_items [] [[item_row]] ! 0)
      \<and> Quantity (fst (process_starbucks_invoice [] [[item_row]] example_db) ! 0)
          = Quantity (extracted_items [] [[item_row]] ! 0)
      \<and> Line_Total (fst (process_starbucks_invoice [] [[item_row]] example_db) ! 0)
          = Line_Total (extracted_items [] [[item_row]] ! 0)"
    by blast
  then show ?thesis using len
    by (simp add: extracted_items_item_row mk_item_fields)
qed

end
